theory Spec2Isabelle
  imports Main
begin

section \<open>The users route: data model\<close>

text \<open>
  The route file \<^verbatim>\<open>webui/app/api/users/route.ts\<close> exports three handlers, POST, GET and
  PUT. Each one asks the session resolver (\<^verbatim>\<open>getServerSession\<close>) who is calling, opens a
  connection, runs one or two SQL statements on the table \<^verbatim>\<open>users\<close>, closes the connection
  and answers with a JSON response. The table is the only state: a handler is modelled as a
  function from the table before the request to the response and the table after it.
\<close>

subsection \<open>The session\<close>

text \<open>
  A property of the session's user is a string, \<^verbatim>\<open>null\<close>, or missing, in which case reading
  it gives \<^verbatim>\<open>undefined\<close>. The three are kept apart: JavaScript treats \<^verbatim>\<open>null\<close> and
  \<^verbatim>\<open>undefined\<close> alike in a condition, the database driver does not when they are bound to
  a statement.
\<close>

datatype js_string = Undefined | Null | Str string

text \<open>
  What \<^verbatim>\<open>getServerSession()\<close> resolves to: \<^verbatim>\<open>null\<close> (\<open>None\<close>), or an object whose \<^verbatim>\<open>user\<close> may
  be missing or \<^verbatim>\<open>null\<close> (\<open>None\<close>: the handlers only test \<^verbatim>\<open>sesh.user\<close> or read through it
  with \<^verbatim>\<open>?.\<close>, which does not tell the two apart). The call is awaited inside the handler's
  \<^verbatim>\<open>try\<close>, so it may also throw.
\<close>

record user =
  name :: js_string
  email :: js_string
  image :: js_string

record session =
  user :: "user option"

datatype resolver_outcome = Resolved "session option" | ResolverThrew

text \<open>
  The \<^verbatim>\<open>Request\<close> each handler receives. No handler mentions its parameter \<^verbatim>\<open>req\<close>; the
  model keeps the parameter, with the request's body as its content.
\<close>

record request =
  req_body :: string

subsection \<open>The table\<close>

text \<open>
  Modelled from the spec: the schema of the table \<^verbatim>\<open>users\<close> is not in the repository. The
  columns are the five that the INSERT statement of POST names; the spec gives
  \<^verbatim>\<open>token_remaining\<close> as an integer balance and \<^verbatim>\<open>signup_date\<close> as a creation timestamp. The
  balance is an unbounded integer and the timestamp a number; text columns may hold NULL
  (\<open>None\<close>). The table is the list of its rows, a new row going to the end.
\<close>

record users_row =
  col_name :: "string option"
  col_email :: "string option"
  google_image_url :: "string option"
  token_remaining :: int
  signup_date :: nat

type_synonym users_table = "users_row list"

subsection \<open>The database connector\<close>

text \<open>
  The connector (\<^verbatim>\<open>mysql2/promise\<close> and the server behind it) is outside the repository. What
  the handlers depend on is taken as a parameter:
  \<^item> \<open>email_eq\<close>: the comparison that \<^verbatim>\<open>WHERE email = ?\<close> performs on two strings (it depends
    on the collation of the column);
  \<^item> \<open>now\<close>: the value of \<^verbatim>\<open>NOW()\<close> on the server;
  \<^item> which of the awaited calls throws for a reason of the connector's own (the server is
    unreachable, the server refuses the statement): \<^verbatim>\<open>createConnection\<close>, a SELECT, an
    INSERT or UPDATE, \<^verbatim>\<open>connection.end\<close>. A statement that throws changes nothing.
\<close>

record connector =
  email_eq :: "string \<Rightarrow> string \<Rightarrow> bool"
  now :: nat
  connect_throws :: bool
  select_throws :: bool
  write_throws :: bool
  end_throws :: bool

definition healthy :: "connector \<Rightarrow> bool" where
  "healthy c \<longleftrightarrow>
     \<not> connect_throws c \<and> \<not> select_throws c \<and> \<not> write_throws c \<and> \<not> end_throws c"

text \<open>
  Binding a value to a \<^verbatim>\<open>?\<close> of a statement run with \<^verbatim>\<open>connection.execute\<close>. The driver
  sends a string as it is and \<^verbatim>\<open>null\<close> as SQL NULL. It refuses \<^verbatim>\<open>undefined\<close>: \<^verbatim>\<open>execute\<close>
  throws a TypeError (bind parameters must not contain undefined) before anything is sent,
  whatever the state of the server. \<open>None\<close> is that exception.
\<close>

fun bind_value :: "js_string \<Rightarrow> string option option" where
  "bind_value Undefined = None"
| "bind_value Null = Some None"
| "bind_value (Str s) = Some (Some s)"

text \<open>SQL \<^verbatim>\<open>email = ?\<close>: a comparison with NULL on either side is never true.\<close>

fun sql_eq :: "connector \<Rightarrow> string option \<Rightarrow> string option \<Rightarrow> bool" where
  "sql_eq c (Some a) (Some b) = email_eq c a b"
| "sql_eq c _ _ = False"

definition createConnection :: "connector \<Rightarrow> unit option" where
  "createConnection c = (if connect_throws c then None else Some ())"

definition connection_end :: "connector \<Rightarrow> unit option" where
  "connection_end c = (if end_throws c then None else Some ())"

text \<open>\<^verbatim>\<open>execute(`SELECT * FROM users WHERE email = ?`, [e])\<close>\<close>

definition select_by_email ::
  "connector \<Rightarrow> js_string \<Rightarrow> users_table \<Rightarrow> users_row list option" where
  "select_by_email c e db =
     (case bind_value e of
        None \<Rightarrow> None
      | Some v \<Rightarrow>
          if select_throws c then None else Some (filter (\<lambda>r. sql_eq c (col_email r) v) db))"

text \<open>\<^verbatim>\<open>query(`SELECT * FROM users`)\<close>\<close>

definition select_all :: "connector \<Rightarrow> users_table \<Rightarrow> users_row list option" where
  "select_all c db = (if select_throws c then None else Some db)"

text \<open>
  \<^verbatim>\<open>execute(`INSERT INTO users (name, email, google_image_url, token_remaining, signup_date)
  VALUES (?, ?, ?, 5, NOW())`, [n, e, i])\<close>
\<close>

definition insert_user ::
  "connector \<Rightarrow> js_string \<Rightarrow> js_string \<Rightarrow> js_string \<Rightarrow> users_table
     \<Rightarrow> users_table option" where
  "insert_user c n e i db =
     (case (bind_value n, bind_value e, bind_value i) of
        (Some vn, Some ve, Some vi) \<Rightarrow>
          if write_throws c then None
          else Some (db @ [\<lparr>col_name = vn, col_email = ve, google_image_url = vi,
                            token_remaining = 5, signup_date = now c\<rparr>])
      | _ \<Rightarrow> None)"

text \<open>
  \<^verbatim>\<open>execute(`UPDATE users SET token_remaining = token_remaining + d WHERE email = ?`, [e])\<close>
\<close>

definition update_tokens ::
  "connector \<Rightarrow> int \<Rightarrow> js_string \<Rightarrow> users_table \<Rightarrow> users_table option" where
  "update_tokens c d e db =
     (case bind_value e of
        None \<Rightarrow> None
      | Some v \<Rightarrow>
          if write_throws c then None
          else Some (map (\<lambda>r. if sql_eq c (col_email r) v
                              then r\<lparr>token_remaining := token_remaining r + d\<rparr> else r) db))"

subsection \<open>Responses\<close>

datatype json = ErrorBody string | MessageBody string | RowsBody "users_row list"

record response =
  status :: nat
  content_type :: string
  body :: json

text \<open>
  \<^verbatim>\<open>new Response(JSON.stringify(b), {status: s, headers: {'Content-Type': 'application/json'}})\<close>
\<close>

definition json_response :: "nat \<Rightarrow> json \<Rightarrow> response" where
  "json_response s b = \<lparr>status = s, content_type = ''application/json'', body = b\<rparr>"

section \<open>The handlers\<close>

text \<open>JavaScript truthiness of a value that is a string, \<^verbatim>\<open>null\<close> or \<^verbatim>\<open>undefined\<close>.\<close>

fun truthy :: "js_string \<Rightarrow> bool" where
  "truthy Undefined = False"
| "truthy Null = False"
| "truthy (Str s) = (s \<noteq> [])"

text \<open>
  POST, lines 26 to 30: \<^verbatim>\<open>email\<close> starts as \<^verbatim>\<open>null\<close> and takes \<^verbatim>\<open>sesh.user.email\<close> when
  \<^verbatim>\<open>sesh && sesh.user && sesh.user.email\<close>.
\<close>

fun post_email :: "session option \<Rightarrow> js_string" where
  "post_email None = Null"
| "post_email (Some s) =
     (case user s of
        None \<Rightarrow> Null
      | Some u \<Rightarrow> if truthy (email u) then email u else Null)"

text \<open>
  PUT, lines 103 to 106: \<^verbatim>\<open>email\<close> starts as \<^verbatim>\<open>null\<close> and takes \<^verbatim>\<open>sesh.user.email\<close> when
  \<^verbatim>\<open>sesh && sesh.user\<close>, whatever that email is: a string (the empty one too), \<^verbatim>\<open>null\<close>, or
  \<^verbatim>\<open>undefined\<close> when the user has no email property.
\<close>

fun put_email :: "session option \<Rightarrow> js_string" where
  "put_email None = Null"
| "put_email (Some s) = (case user s of None \<Rightarrow> Null | Some u \<Rightarrow> email u)"

text \<open>
  \<^verbatim>\<open>sesh?.user?.name\<close> and \<^verbatim>\<open>sesh?.user?.image\<close>: \<^verbatim>\<open>undefined\<close> when the session or its user is
  absent, the property's value otherwise.
\<close>

fun sesh_name :: "session option \<Rightarrow> js_string" where
  "sesh_name None = Undefined"
| "sesh_name (Some s) = (case user s of None \<Rightarrow> Undefined | Some u \<Rightarrow> name u)"

fun sesh_image :: "session option \<Rightarrow> js_string" where
  "sesh_image None = Undefined"
| "sesh_image (Some s) = (case user s of None \<Rightarrow> Undefined | Some u \<Rightarrow> image u)"

text \<open>
  POST: register or top up. Every \<open>None\<close> of an awaited call is an exception, which the
  \<^verbatim>\<open>catch\<close> turns into the 500 response; the table is then as the statements that ran before
  left it. The handlers' \<^verbatim>\<open>console.log\<close> lines write to the server's log only and are left
  out.
\<close>

definition POST ::
  "request \<Rightarrow> resolver_outcome \<Rightarrow> connector \<Rightarrow> users_table \<Rightarrow> response \<times> users_table" where
  "POST req outcome c db =
     (let failed = json_response 500 (ErrorBody ''Failed to execute operation'') in
      case outcome of
        ResolverThrew \<Rightarrow> (failed, db)
      | Resolved sesh \<Rightarrow>
          let email = post_email sesh in
          if \<not> truthy email then (json_response 400 (ErrorBody ''No email provided''), db)
          else
            (case createConnection c of
               None \<Rightarrow> (failed, db)
             | Some _ \<Rightarrow>
                (case select_by_email c email db of
                   None \<Rightarrow> (failed, db)
                 | Some users \<Rightarrow>
                    (case (if length users = 0
                           then insert_user c (sesh_name sesh) email (sesh_image sesh) db
                           else update_tokens c 5 email db) of
                       None \<Rightarrow> (failed, db)
                     | Some db' \<Rightarrow>
                        (case connection_end c of
                           None \<Rightarrow> (failed, db')
                         | Some _ \<Rightarrow>
                            (json_response 200 (MessageBody ''Operation successful''), db'))))))"

text \<open>
  GET: list every row. The handler never calls the session resolver; the outcome the
  resolver would have for the request is kept as a parameter, unused, so that all three
  handlers are functions of the same inputs.
\<close>

definition GET ::
  "request \<Rightarrow> resolver_outcome \<Rightarrow> connector \<Rightarrow> users_table \<Rightarrow> response \<times> users_table" where
  "GET req outcome c db =
     (let failed = json_response 500 (ErrorBody ''Failed to fetch users'') in
      case createConnection c of
        None \<Rightarrow> (failed, db)
      | Some _ \<Rightarrow>
         (case select_all c db of
            None \<Rightarrow> (failed, db)
          | Some rows \<Rightarrow>
             (case connection_end c of
                None \<Rightarrow> (failed, db)
              | Some _ \<Rightarrow> (json_response 200 (RowsBody rows), db))))"

text \<open>PUT: debit one token.\<close>

definition PUT ::
  "request \<Rightarrow> resolver_outcome \<Rightarrow> connector \<Rightarrow> users_table \<Rightarrow> response \<times> users_table" where
  "PUT req outcome c db =
     (let failed = json_response 500 (ErrorBody ''Failed to subtract tokens'') in
      case outcome of
        ResolverThrew \<Rightarrow> (failed, db)
      | Resolved sesh \<Rightarrow>
          let email = put_email sesh in
          (case createConnection c of
             None \<Rightarrow> (failed, db)
           | Some _ \<Rightarrow>
              (case update_tokens c (- 1) email db of
                 None \<Rightarrow> (failed, db)
               | Some db' \<Rightarrow>
                  (case connection_end c of
                     None \<Rightarrow> (failed, db')
                   | Some _ \<Rightarrow>
                      (json_response 200 (MessageBody ''1 token subtracted successfully''),
                       db')))))"

subsection \<open>Concrete instances\<close>

text \<open>
  A connector on which no call throws and which compares emails character by character;
  the session of a caller with the given name, email and image; the session
  \<^verbatim>\<open>{user: {email: e}}\<close> of a caller known by an email alone, whose name and image are
  missing; and a row with no name and no image.
\<close>

definition binary_connector :: "nat \<Rightarrow> connector" where
  "binary_connector t =
     \<lparr>email_eq = (=), now = t, connect_throws = False, select_throws = False,
      write_throws = False, end_throws = False\<rparr>"

definition identity_with :: "js_string \<Rightarrow> string \<Rightarrow> js_string \<Rightarrow> session option" where
  "identity_with n e i = Some \<lparr>user = Some \<lparr>name = n, email = Str e, image = i\<rparr>\<rparr>"

definition identity :: "string \<Rightarrow> session option" where
  "identity e = identity_with Undefined e Undefined"

definition account :: "string \<Rightarrow> int \<Rightarrow> nat \<Rightarrow> users_row" where
  "account e n t =
     \<lparr>col_name = None, col_email = Some e, google_image_url = None,
      token_remaining = n, signup_date = t\<rparr>"

section \<open>Properties\<close>

subsection \<open>The resolved email\<close>

lemma sql_eq_None [simp]: "sql_eq c x None = False"
  by (cases x) simp_all

lemma truthy_iff: "truthy x \<longleftrightarrow> (\<exists>s. x = Str s \<and> s \<noteq> [])"
  by (cases x) simp_all

lemma not_truthy_iff: "\<not> truthy x \<longleftrightarrow> x = Undefined \<or> x = Null \<or> x = Str []"
  by (cases x) simp_all

lemma post_email_cases: "post_email sesh = Null \<or> (\<exists>e. e \<noteq> [] \<and> post_email sesh = Str e)"
  by (cases sesh) (auto simp: truthy_iff split: option.splits)

lemma post_email_truthy: "post_email sesh = Str e \<Longrightarrow> e \<noteq> []"
  using post_email_cases [of sesh] by auto

text \<open>
  POST resolves no email exactly when the session is \<^verbatim>\<open>null\<close>, has no user, or the user's
  email is missing, \<^verbatim>\<open>null\<close> or the empty string.
\<close>

lemma post_email_Null_iff:
  "post_email sesh = Null \<longleftrightarrow>
     (case sesh of
        None \<Rightarrow> True
      | Some s \<Rightarrow>
          (case user s of
             None \<Rightarrow> True
           | Some u \<Rightarrow> email u = Undefined \<or> email u = Null \<or> email u = Str []))"
  by (cases sesh) (auto simp: not_truthy_iff split: option.splits)

text \<open>
  PUT binds whatever \<^verbatim>\<open>sesh.user.email\<close> is. Its email is \<^verbatim>\<open>null\<close> when the session is
  \<^verbatim>\<open>null\<close>, has no user, or the user's email is \<^verbatim>\<open>null\<close>; it is \<^verbatim>\<open>undefined\<close> when the user
  has no email property.
\<close>

lemma put_email_Null_iff:
  "put_email sesh = Null \<longleftrightarrow>
     (case sesh of
        None \<Rightarrow> True
      | Some s \<Rightarrow> (case user s of None \<Rightarrow> True | Some u \<Rightarrow> email u = Null))"
  by (cases sesh) (auto split: option.splits)

lemma put_email_Undefined_iff:
  "put_email sesh = Undefined \<longleftrightarrow>
     (case sesh of
        None \<Rightarrow> False
      | Some s \<Rightarrow> (case user s of None \<Rightarrow> False | Some u \<Rightarrow> email u = Undefined))"
  by (cases sesh) (auto split: option.splits)

subsection \<open>The handlers when no call of the connector throws\<close>

lemma POST_topup:
  assumes "healthy c" and "post_email sesh = Str e"
    and "filter (\<lambda>r. sql_eq c (col_email r) (Some e)) db \<noteq> []"
  shows "POST req (Resolved sesh) c db =
           (json_response 200 (MessageBody ''Operation successful''),
            map (\<lambda>r. if sql_eq c (col_email r) (Some e)
                      then r\<lparr>token_remaining := token_remaining r + 5\<rparr> else r) db)"
  using assms post_email_truthy [of sesh e]
  by (simp add: POST_def healthy_def createConnection_def select_by_email_def
      update_tokens_def connection_end_def)

lemma POST_insert:
  assumes "healthy c" and "post_email sesh = Str e"
    and "filter (\<lambda>r. sql_eq c (col_email r) (Some e)) db = []"
    and "bind_value (sesh_name sesh) = Some n" and "bind_value (sesh_image sesh) = Some i"
  shows "POST req (Resolved sesh) c db =
           (json_response 200 (MessageBody ''Operation successful''),
            db @ [\<lparr>col_name = n, col_email = Some e, google_image_url = i,
                    token_remaining = 5, signup_date = now c\<rparr>])"
  using assms post_email_truthy [of sesh e]
  by (simp add: POST_def healthy_def createConnection_def select_by_email_def
      insert_user_def connection_end_def)

text \<open>
  The INSERT binds \<^verbatim>\<open>sesh?.user?.name\<close> and \<^verbatim>\<open>sesh?.user?.image\<close> as they are. When the
  session's user lacks a name or an image the bound value is \<^verbatim>\<open>undefined\<close>, the driver
  throws, and POST answers 500 without a new row, on any connector.
\<close>

lemma POST_insert_refused:
  assumes "post_email sesh = Str e"
    and "filter (\<lambda>r. sql_eq c (col_email r) (Some e)) db = []"
    and "sesh_name sesh = Undefined \<or> sesh_image sesh = Undefined"
  shows "POST req (Resolved sesh) c db =
           (json_response 500 (ErrorBody ''Failed to execute operation''), db)"
  using assms post_email_truthy [of sesh e]
  by (auto simp: POST_def createConnection_def select_by_email_def insert_user_def
      split: option.splits)

lemma PUT_bound:
  assumes "healthy c" and "bind_value (put_email sesh) = Some v"
  shows "PUT req (Resolved sesh) c db =
           (json_response 200 (MessageBody ''1 token subtracted successfully''),
            map (\<lambda>r. if sql_eq c (col_email r) v
                      then r\<lparr>token_remaining := token_remaining r - 1\<rparr> else r) db)"
  using assms
  by (simp add: PUT_def healthy_def createConnection_def update_tokens_def connection_end_def)


lemma GET_healthy:
  "healthy c \<Longrightarrow> GET req outcome c db = (json_response 200 (RowsBody db), db)"
  by (simp add: GET_def healthy_def createConnection_def select_all_def connection_end_def)

subsection \<open>The emails of the table, whatever throws\<close>

lemma GET_table: "snd (GET req outcome c db) = db"
  by (simp add: GET_def Let_def split: option.splits)

lemma update_tokens_emails:
  "update_tokens c d e db = Some db' \<Longrightarrow> map col_email db' = map col_email db"
  by (auto simp: update_tokens_def split: if_splits option.splits)

lemma insert_user_emails:
  "insert_user c n e i db = Some db' \<Longrightarrow> \<exists>v. map col_email db' = map col_email db @ [v]"
  by (auto simp: insert_user_def split: if_splits option.splits)

lemma POST_emails:
  "\<exists>extra. map col_email (snd (POST req outcome c db)) = map col_email db @ extra"
proof (cases "snd (POST req outcome c db) = db")
  case True
  then show ?thesis by simp
next
  case False
  then obtain n e i where
    "insert_user c n e i db = Some (snd (POST req outcome c db))
     \<or> update_tokens c 5 e db = Some (snd (POST req outcome c db))"
    by (auto simp: POST_def Let_def split: resolver_outcome.splits option.splits if_splits)
  then show ?thesis
    using insert_user_emails update_tokens_emails by (metis append_Nil2)
qed

lemma PUT_emails:
  "map col_email (snd (PUT req outcome c db)) = map col_email db"
  by (auto simp: PUT_def Let_def dest: update_tokens_emails
      split: resolver_outcome.splits option.splits)

subsection \<open>The concrete instances\<close>

lemma healthy_binary [simp]: "healthy (binary_connector t)"
  by (simp add: healthy_def binary_connector_def)

lemma binary_eq [simp]: "email_eq (binary_connector t) = (=)"
  by (simp add: binary_connector_def)

lemma binary_now [simp]: "now (binary_connector t) = t"
  by (simp add: binary_connector_def)

lemma identity_with_simps [simp]:
  "post_email (identity_with n e i) = (if e = [] then Null else Str e)"
  "put_email (identity_with n e i) = Str e"
  "sesh_name (identity_with n e i) = n"
  "sesh_image (identity_with n e i) = i"
  by (simp_all add: identity_with_def)

subsection \<open>An empty email\<close>

text \<open>
  The two handlers do not resolve the email alike. For a session whose email is the empty
  string POST resolves none (and answers 400), whereas PUT binds the empty string to its
  UPDATE, which debits a row whose email is empty if the table holds one.
\<close>

lemma PUT_binds_empty_email:
  "post_email (identity []) = Null \<and> put_email (identity []) = Str []
   \<and> PUT \<lparr>req_body = []\<rparr> (Resolved (identity [])) (binary_connector 9) [account [] 0 8] =
      (json_response 200 (MessageBody ''1 token subtracted successfully''),
       [account [] (- 1) 8])"
  by (simp add: PUT_bound [where v = "Some []"] identity_def) (simp add: account_def)

subsection \<open>The scenario for a caller whose name and image are null\<close>

text \<open>
  When the session carries \<^verbatim>\<open>null\<close> for the name and the image (or strings), the INSERT is
  accepted, and the four requests of the spec's scenario give the balances 5, 10 and 9.
\<close>

lemma scenario_with_null_name_and_image:
  assumes "healthy c1" and "healthy c2" and "healthy c3" and "healthy c4"
    and "email_eq c2 ''a@x.com'' ''a@x.com''" and "email_eq c3 ''a@x.com'' ''a@x.com''"
  shows "POST r1 (Resolved (identity_with Null ''a@x.com'' Null)) c1 [] =
           (json_response 200 (MessageBody ''Operation successful''),
            [account ''a@x.com'' 5 (now c1)])
         \<and> POST r2 (Resolved (identity_with Null ''a@x.com'' Null)) c2
              [account ''a@x.com'' 5 (now c1)] =
           (json_response 200 (MessageBody ''Operation successful''),
            [account ''a@x.com'' 10 (now c1)])
         \<and> PUT r3 (Resolved (identity_with Null ''a@x.com'' Null)) c3
              [account ''a@x.com'' 10 (now c1)] =
           (json_response 200 (MessageBody ''1 token subtracted successfully''),
            [account ''a@x.com'' 9 (now c1)])
         \<and> GET r4 outcome c4 [account ''a@x.com'' 9 (now c1)] =
           (json_response 200 (RowsBody [account ''a@x.com'' 9 (now c1)]),
            [account ''a@x.com'' 9 (now c1)])"
proof -
  let ?s = "identity_with Null ''a@x.com'' Null"
  have e: "post_email ?s = Str ''a@x.com''"
    by simp
  have first: "POST r1 (Resolved ?s) c1 [] =
      (json_response 200 (MessageBody ''Operation successful''),
       [account ''a@x.com'' 5 (now c1)])"
    by (simp add: POST_insert [OF assms(1) e, where n = None and i = None] account_def)
  have second: "POST r2 (Resolved ?s) c2 [account ''a@x.com'' 5 (now c1)] =
      (json_response 200 (MessageBody ''Operation successful''),
       [account ''a@x.com'' 10 (now c1)])"
    using assms(5) by (simp add: POST_topup [OF assms(2) e] account_def)
  have third: "PUT r3 (Resolved ?s) c3 [account ''a@x.com'' 10 (now c1)] =
      (json_response 200 (MessageBody ''1 token subtracted successfully''),
       [account ''a@x.com'' 9 (now c1)])"
    using assms(6)
    by (simp add: PUT_bound [OF assms(3), where v = "Some ''a@x.com''"] account_def)
  from first second third GET_healthy [OF assms(4)] show ?thesis
    by simp
qed

section \<open>The claims\<close>

text \<open>
  Claim C1. The claim: for every session resolving to an email that no row matches, POST
  inserts exactly one row with balance 5. The code misses it for a session whose user has
  an email but no name or no image: the INSERT binds \<^verbatim>\<open>undefined\<close>, the driver throws, and
  POST answers 500 and inserts nothing, although line 50 says the user is added. Evaluated
  here for the session \<^verbatim>\<open>{user: {email: "a@x.com"}}\<close>, a connector on which nothing else
  throws, and a table holding one other account. (Lemma \<open>POST_insert\<close> is what holds: the
  row is inserted when name and image are each a string or \<^verbatim>\<open>null\<close>.)
\<close>

theorem POST_email_only_session_inserts_nothing:
  "healthy (binary_connector 1700000000)
   \<and> post_email (identity ''a@x.com'') = Str ''a@x.com''
   \<and> \<not> (\<exists>r \<in> set [account ''b@x.com'' 3 7].
         sql_eq (binary_connector 1700000000) (col_email r) (Some ''a@x.com''))
   \<and> POST \<lparr>req_body = []\<rparr> (Resolved (identity ''a@x.com'')) (binary_connector 1700000000)
        [account ''b@x.com'' 3 7] =
      (json_response 500 (ErrorBody ''Failed to execute operation''),
       [account ''b@x.com'' 3 7])"
proof -
  have e: "post_email (identity ''a@x.com'') = Str ''a@x.com''"
    by (simp add: identity_def)
  have m: "filter (\<lambda>r. sql_eq (binary_connector 1700000000) (col_email r) (Some ''a@x.com''))
      [account ''b@x.com'' 3 7] = []"
    by (simp add: account_def)
  have u: "sesh_name (identity ''a@x.com'') = Undefined
      \<or> sesh_image (identity ''a@x.com'') = Undefined"
    by (simp add: identity_def)
  from POST_insert_refused [OF e m u] e show ?thesis
    by (simp add: account_def)
qed

text \<open>
  Claim C2. When the session resolves to an email that some row of the table matches, and
  no call to the connector throws, POST answers 200, the table keeps its length (no row is
  inserted), every matching row has its balance increased by exactly 5 and every other row
  is as before.
\<close>

theorem POST_existing_email_adds_five:
  assumes "healthy c" and "post_email sesh = Str e"
    and "\<exists>r \<in> set db. sql_eq c (col_email r) (Some e)"
  shows "fst (POST req (Resolved sesh) c db) =
           json_response 200 (MessageBody ''Operation successful'')
         \<and> length (snd (POST req (Resolved sesh) c db)) = length db
         \<and> (\<forall>i < length db.
               snd (POST req (Resolved sesh) c db) ! i =
                 (if sql_eq c (col_email (db ! i)) (Some e)
                  then (db ! i)\<lparr>token_remaining := token_remaining (db ! i) + 5\<rparr>
                  else db ! i))"
proof -
  from assms(3) have "filter (\<lambda>r. sql_eq c (col_email r) (Some e)) db \<noteq> []"
    by (simp add: filter_empty_conv)
  from POST_topup [OF assms(1,2) this] show ?thesis
    by simp
qed

theorem POST_existing_email_adds_five_witness:
  "healthy (binary_connector 9)
   \<and> post_email (identity ''a@x.com'') = Str ''a@x.com''
   \<and> (\<exists>r \<in> set [account ''b@x.com'' 3 7, account ''a@x.com'' 5 8].
         sql_eq (binary_connector 9) (col_email r) (Some ''a@x.com''))
   \<and> snd (POST \<lparr>req_body = []\<rparr> (Resolved (identity ''a@x.com'')) (binary_connector 9)
        [account ''b@x.com'' 3 7, account ''a@x.com'' 5 8]) ! 1 = account ''a@x.com'' 10 8
   \<and> snd (POST \<lparr>req_body = []\<rparr> (Resolved (identity ''a@x.com'')) (binary_connector 9)
        [account ''b@x.com'' 3 7, account ''a@x.com'' 5 8]) ! 0 = account ''b@x.com'' 3 7
   \<and> length (snd (POST \<lparr>req_body = []\<rparr> (Resolved (identity ''a@x.com''))
        (binary_connector 9) [account ''b@x.com'' 3 7, account ''a@x.com'' 5 8])) = 2"
  using POST_existing_email_adds_five [of "binary_connector 9" "identity ''a@x.com''"
      "''a@x.com''" "[account ''b@x.com'' 3 7, account ''a@x.com'' 5 8]" "\<lparr>req_body = []\<rparr>"]
  by (simp add: identity_def account_def All_less_Suc)

text \<open>
  Claim C3. When the session resolves to no email (POST's \<^verbatim>\<open>email\<close> stays \<^verbatim>\<open>null\<close>: no
  session, no user, or an email that is missing, \<^verbatim>\<open>null\<close> or empty), POST answers 400 with
  the body \<^verbatim>\<open>{"error": "No email provided"}\<close> and the table is unchanged, whatever the
  connector would do: the handler returns before it opens a connection.
\<close>

theorem POST_no_email_400:
  assumes "post_email sesh = Null"
  shows "POST req (Resolved sesh) c db =
           (json_response 400 (ErrorBody ''No email provided''), db)"
  using assms by (simp add: POST_def)

theorem POST_no_email_400_witness:
  "post_email (Some \<lparr>user = Some \<lparr>name = Str ''Ann'', email = Str [], image = Null\<rparr>\<rparr>) = Null
   \<and> POST \<lparr>req_body = ''{}''\<rparr>
        (Resolved (Some \<lparr>user = Some \<lparr>name = Str ''Ann'', email = Str [], image = Null\<rparr>\<rparr>))
        (binary_connector 3) [account ''a@x.com'' 5 1] =
      (json_response 400 (ErrorBody ''No email provided''), [account ''a@x.com'' 5 1])"
  using POST_no_email_400
    [of "Some \<lparr>user = Some \<lparr>name = Str ''Ann'', email = Str [], image = Null\<rparr>\<rparr>"
      "\<lparr>req_body = ''{}''\<rparr>" "binary_connector 3" "[account ''a@x.com'' 5 1]"]
  by simp

text \<open>
  Claim C4. When the session gives PUT an email and no call to the connector throws, PUT
  answers 200, every row matching the email has its balance decreased by exactly 1 and
  every other row is as before, the table keeping its length. Nothing guards the
  subtraction: a matching row with balance 0 ends with balance -1.
\<close>

theorem PUT_debits_matching_rows:
  assumes "healthy c" and "put_email sesh = Str e"
  shows "fst (PUT req (Resolved sesh) c db) =
           json_response 200 (MessageBody ''1 token subtracted successfully'')
         \<and> length (snd (PUT req (Resolved sesh) c db)) = length db
         \<and> (\<forall>i < length db.
               snd (PUT req (Resolved sesh) c db) ! i =
                 (if sql_eq c (col_email (db ! i)) (Some e)
                  then (db ! i)\<lparr>token_remaining := token_remaining (db ! i) - 1\<rparr>
                  else db ! i))
         \<and> (\<forall>i < length db.
               sql_eq c (col_email (db ! i)) (Some e) \<and> token_remaining (db ! i) = 0 \<longrightarrow>
               token_remaining (snd (PUT req (Resolved sesh) c db) ! i) = - 1)"
proof -
  from assms(2) have "bind_value (put_email sesh) = Some (Some e)"
    by simp
  from PUT_bound [OF assms(1) this] show ?thesis
    by simp
qed

theorem PUT_debits_matching_rows_witness:
  "healthy (binary_connector 9)
   \<and> put_email (identity ''a@x.com'') = Str ''a@x.com''
   \<and> PUT \<lparr>req_body = []\<rparr> (Resolved (identity ''a@x.com'')) (binary_connector 9)
        [account ''b@x.com'' 3 7, account ''a@x.com'' 0 8] =
      (json_response 200 (MessageBody ''1 token subtracted successfully''),
       [account ''b@x.com'' 3 7, account ''a@x.com'' (- 1) 8])"
proof -
  let ?db = "[account ''b@x.com'' 3 7, account ''a@x.com'' 0 8]"
  let ?out = "PUT \<lparr>req_body = []\<rparr> (Resolved (identity ''a@x.com'')) (binary_connector 9) ?db"
  have e: "put_email (identity ''a@x.com'') = Str ''a@x.com''"
    by (simp add: identity_def)
  note t = PUT_debits_matching_rows [OF healthy_binary e, of "\<lparr>req_body = []\<rparr>" 9 ?db]
  from t have "length (snd ?out) = 2" "snd ?out ! 0 = account ''b@x.com'' 3 7"
    "snd ?out ! 1 = account ''a@x.com'' (- 1) 8"
    by (simp_all add: account_def All_less_Suc)
  then have "snd ?out = [account ''b@x.com'' 3 7, account ''a@x.com'' (- 1) 8]"
    by (intro nth_equalityI) (auto simp: less_Suc_eq numeral_2_eq_2)
  with t e show ?thesis
    by (simp add: prod_eq_iff)
qed




text \<open>
  Claim C6. For every table and every caller, when no call to the connector throws, GET
  answers 200 with the array of all rows of the table, each as it is and as many as the
  table has, and leaves the table unchanged.
\<close>

theorem GET_lists_every_row:
  assumes "healthy c"
  shows "GET req outcome c db = (json_response 200 (RowsBody db), db)"
  using assms by (rule GET_healthy)

theorem GET_lists_every_row_witness:
  "healthy (binary_connector 9)
   \<and> GET \<lparr>req_body = []\<rparr> (Resolved None) (binary_connector 9)
        [account ''b@x.com'' 3 7, account ''a@x.com'' 0 8] =
      (json_response 200 (RowsBody [account ''b@x.com'' 3 7, account ''a@x.com'' 0 8]),
       [account ''b@x.com'' 3 7, account ''a@x.com'' 0 8])"
  using GET_lists_every_row [of "binary_connector 9" "\<lparr>req_body = []\<rparr>" "Resolved None"
      "[account ''b@x.com'' 3 7, account ''a@x.com'' 0 8]"]
  by simp

text \<open>
  Claim C7. The claim: from the empty table, POST with the identity \<^verbatim>\<open>{email: "a@x.com"}\<close>
  creates a row with balance 5, a second POST makes it 10, PUT makes it 9 and GET returns
  that row. The code misses it, by the defect of the INSERT on a session with an email
  alone: that identity has no name and no image, so the INSERT of the first POST binds \<^verbatim>\<open>undefined\<close> and throws. Evaluated here on
  connectors on which nothing else throws: both POSTs answer 500 and create no row, PUT
  answers 200 on the empty table, and GET returns the empty array. (Lemma
  \<open>scenario_with_null_name_and_image\<close> gives 5, 10 and 9 for a name and an image that are
  \<^verbatim>\<open>null\<close>.)
\<close>

theorem scenario_with_email_only_identity:
  "POST \<lparr>req_body = []\<rparr> (Resolved (identity ''a@x.com'')) (binary_connector 100) [] =
     (json_response 500 (ErrorBody ''Failed to execute operation''), [])
   \<and> POST \<lparr>req_body = []\<rparr> (Resolved (identity ''a@x.com'')) (binary_connector 200) [] =
     (json_response 500 (ErrorBody ''Failed to execute operation''), [])
   \<and> PUT \<lparr>req_body = []\<rparr> (Resolved (identity ''a@x.com'')) (binary_connector 300) [] =
     (json_response 200 (MessageBody ''1 token subtracted successfully''), [])
   \<and> GET \<lparr>req_body = []\<rparr> (Resolved (identity ''a@x.com'')) (binary_connector 400) [] =
     (json_response 200 (RowsBody []), [])"
proof -
  have e: "post_email (identity ''a@x.com'') = Str ''a@x.com''"
    by (simp add: identity_def)
  have u: "sesh_name (identity ''a@x.com'') = Undefined
      \<or> sesh_image (identity ''a@x.com'') = Undefined"
    by (simp add: identity_def)
  have post: "POST \<lparr>req_body = []\<rparr> (Resolved (identity ''a@x.com'')) (binary_connector t) [] =
      (json_response 500 (ErrorBody ''Failed to execute operation''), [])" for t
    by (rule POST_insert_refused [OF e _ u]) simp
  have put: "PUT \<lparr>req_body = []\<rparr> (Resolved (identity ''a@x.com'')) (binary_connector 300) [] =
      (json_response 200 (MessageBody ''1 token subtracted successfully''), [])"
    by (simp add: PUT_bound [where v = "Some ''a@x.com''"] identity_def)
  from post put show ?thesis
    by (simp add: GET_healthy)
qed

text \<open>
  Claim C8. No handler deletes an account: whatever the session resolver and the
  connector do, for each row of the table before POST, GET or PUT runs, the table
  afterwards holds a row with the same email.
\<close>

theorem no_handler_deletes_an_account:
  assumes "r \<in> set db"
  shows "(\<exists>r' \<in> set (snd (POST req outcome c db)). col_email r' = col_email r)
         \<and> (\<exists>r' \<in> set (snd (GET req outcome c db)). col_email r' = col_email r)
         \<and> (\<exists>r' \<in> set (snd (PUT req outcome c db)). col_email r' = col_email r)"
proof -
  from assms have m: "col_email r \<in> set (map col_email db)"
    by simp
  obtain extra where "map col_email (snd (POST req outcome c db)) = map col_email db @ extra"
    using POST_emails by blast
  with m have "col_email r \<in> set (map col_email (snd (POST req outcome c db)))"
    by simp
  then have post: "\<exists>r' \<in> set (snd (POST req outcome c db)). col_email r' = col_email r"
    by auto
  from assms have get: "\<exists>r' \<in> set (snd (GET req outcome c db)). col_email r' = col_email r"
    by (auto simp: GET_table)
  from m have "col_email r \<in> set (map col_email (snd (PUT req outcome c db)))"
    by (simp only: PUT_emails)
  then have put: "\<exists>r' \<in> set (snd (PUT req outcome c db)). col_email r' = col_email r"
    by auto
  from post get put show ?thesis
    by blast
qed

theorem no_handler_deletes_an_account_witness:
  "account ''a@x.com'' 5 1 \<in> set [account ''a@x.com'' 5 1]
   \<and> (\<exists>r' \<in> set (snd (POST \<lparr>req_body = []\<rparr> (Resolved (identity ''a@x.com''))
          (binary_connector 2) [account ''a@x.com'' 5 1])).
        col_email r' = col_email (account ''a@x.com'' 5 1))
   \<and> (\<exists>r' \<in> set (snd (GET \<lparr>req_body = []\<rparr> (Resolved (identity ''a@x.com''))
          (binary_connector 2) [account ''a@x.com'' 5 1])).
        col_email r' = col_email (account ''a@x.com'' 5 1))
   \<and> (\<exists>r' \<in> set (snd (PUT \<lparr>req_body = []\<rparr> (Resolved (identity ''a@x.com''))
          (binary_connector 2) [account ''a@x.com'' 5 1])).
        col_email r' = col_email (account ''a@x.com'' 5 1))"
  using no_handler_deletes_an_account [of "account ''a@x.com'' 5 1" "[account ''a@x.com'' 5 1]"
      "\<lparr>req_body = []\<rparr>" "Resolved (identity ''a@x.com'')" "binary_connector 2"]
  by simp

text \<open>
  Claim C9. GET does not consult the session resolver: on the same table and connector
  its result is the same for any two outcomes of the resolver, authenticated or not, and
  when no call to the connector throws both callers receive all rows of the table.
\<close>

theorem GET_ignores_the_session:
  "GET req outcome1 c db = GET req outcome2 c db
   \<and> (healthy c \<longrightarrow>
        fst (GET req outcome1 c db) = json_response 200 (RowsBody db)
        \<and> fst (GET req outcome2 c db) = json_response 200 (RowsBody db))"
  by (simp add: GET_healthy) (simp add: GET_def)

theorem GET_ignores_the_session_witness:
  "healthy (binary_connector 2)
   \<and> GET \<lparr>req_body = []\<rparr> (Resolved None) (binary_connector 2)
        [account ''a@x.com'' 5 1, account ''b@x.com'' 0 1] =
      GET \<lparr>req_body = []\<rparr> (Resolved (identity ''a@x.com'')) (binary_connector 2)
        [account ''a@x.com'' 5 1, account ''b@x.com'' 0 1]
   \<and> fst (GET \<lparr>req_body = []\<rparr> (Resolved None) (binary_connector 2)
        [account ''a@x.com'' 5 1, account ''b@x.com'' 0 1]) =
      json_response 200 (RowsBody [account ''a@x.com'' 5 1, account ''b@x.com'' 0 1])"
  using GET_ignores_the_session [of "\<lparr>req_body = []\<rparr>" "Resolved None" "binary_connector 2"
      "[account ''a@x.com'' 5 1, account ''b@x.com'' 0 1]" "Resolved (identity ''a@x.com'')"]
  by simp

text \<open>
  Claim C10. No handler reads the request: for a fixed outcome of the session resolver, a
  fixed connector and a fixed table, any two requests, whatever their bodies, give the
  same response and the same table afterwards, for POST, GET and PUT alike.
\<close>

theorem handlers_ignore_the_body:
  "POST r1 outcome c db = POST r2 outcome c db
   \<and> GET r1 outcome c db = GET r2 outcome c db
   \<and> PUT r1 outcome c db = PUT r2 outcome c db"
  by (simp add: POST_def GET_def PUT_def)

end
